theory Spec2Isabelle
  imports Main
begin

section \<open>The inventory service (src/inventory-service/app.py)\<close>

text \<open>
  The service keeps per-item stock counts in a Redis store, reserves stock through one
  server-side Lua script, and runs a RabbitMQ consumer that counts order notifications.
  The development embeds the module's functions as HOL functions over an explicit
  process state; every exception of the source is a value of the type \<open>exn\<close>.

  Two things the module does depend on floating-point formatting in the store and on
  the clock of the operating system. Where a function reaches one of them its result is
  \<open>None\<close>: the development says nothing about that run. Every other run has a result
  \<open>Some r\<close>, and the properties below are stated with \<open>Some\<close>.
\<close>

subsection \<open>Exceptions\<close>

text \<open>
  The exceptions the module can meet. \<open>BrokerError\<close> stands for whatever pika raises while
  opening a connection, opening a channel or declaring the queue; \<open>StoreError\<close> for what
  the Redis client raises when the store does not answer; \<open>ResponseError\<close> for a script
  that the store aborts; \<open>DataError\<close> is the Redis client's refusal to encode a key.
\<close>

datatype exn =
    JSONDecodeError
  | UnicodeDecodeError
  | KeyError string
  | TypeError
  | ValueError
  | OverflowError
  | RuntimeError
  | BrokerError
  | StoreError
  | ResponseError
  | DataError

subsection \<open>JSON values and the Python operations the module applies to them\<close>

text \<open>
  A Python float: a finite one is \<open>m * 2 ^ e\<close> and carries the text \<open>repr\<close> prints for it;
  the JSON decoder also returns the infinities and NaN.
\<close>

datatype pyfloat =
    Finite int int string
  | Infinity bool
  | NaN

text \<open>
  What \<open>json.loads\<close> and \<open>request.get_json()\<close> return: \<open>None\<close>, a bool, an int, a float, a
  str, a list or a dict (as the list of its items, keys distinct). A str is the list of
  its code points, for text of code points below 256.
\<close>

datatype json =
    JNull
  | JBool bool
  | JInt int
  | JFloat pyfloat
  | JStr string
  | JList "json list"
  | JObj "(string \<times> json) list"

text \<open>Python truth value, as \<open>not data\<close> tests it.\<close>

fun truthy :: "json \<Rightarrow> bool" where
  "truthy JNull = False"
| "truthy (JBool b) = b"
| "truthy (JInt n) = (n \<noteq> 0)"
| "truthy (JFloat (Finite m e r)) = (m \<noteq> 0)"
| "truthy (JFloat (Infinity pos)) = True"
| "truthy (JFloat NaN) = True"
| "truthy (JStr s) = (s \<noteq> [])"
| "truthy (JList xs) = (xs \<noteq> [])"
| "truthy (JObj kvs) = (kvs \<noteq> [])"

fun occurs_in :: "string \<Rightarrow> string \<Rightarrow> bool" where
  "occurs_in k [] = (k = [])"
| "occurs_in k (c # cs) = (take (length k) (c # cs) = k \<or> occurs_in k cs)"

text \<open>
  \<open>k in data\<close>: key membership for a dict, element membership for a list, substring for a
  str, and a TypeError for values that are not containers.
\<close>

fun contains :: "json \<Rightarrow> string \<Rightarrow> exn + bool" where
  "contains (JObj kvs) k = Inr (map_of kvs k \<noteq> None)"
| "contains (JList xs) k = Inr (JStr k \<in> set xs)"
| "contains (JStr s) k = Inr (occurs_in k s)"
| "contains JNull k = Inl TypeError"
| "contains (JBool b) k = Inl TypeError"
| "contains (JInt n) k = Inl TypeError"
| "contains (JFloat f) k = Inl TypeError"

text \<open>\<open>data[k]\<close> with a str \<open>k\<close>: only a dict can be indexed by a str.\<close>

fun subscript :: "json \<Rightarrow> string \<Rightarrow> exn + json" where
  "subscript (JObj kvs) k =
     (case map_of kvs k of None \<Rightarrow> Inl (KeyError k) | Some v \<Rightarrow> Inr v)"
| "subscript JNull k = Inl TypeError"
| "subscript (JBool b) k = Inl TypeError"
| "subscript (JInt n) k = Inl TypeError"
| "subscript (JFloat f) k = Inl TypeError"
| "subscript (JStr s) k = Inl TypeError"
| "subscript (JList xs) k = Inl TypeError"

text \<open>
  \<open>int(s)\<close> for a str: the whitespace around the literal is stripped (the code points 9
  to 13, 32, 133 and 160), one sign is allowed, and the rest is decimal digits, where
  single underscores may separate digits. A literal of more than 4300 digits is refused
  (the interpreter's default limit on integer strings, which counts every digit and
  neither sign nor underscores).
\<close>

definition py_isspace :: "char \<Rightarrow> bool" where
  "py_isspace c = ((9 \<le> (of_char c :: nat) \<and> (of_char c :: nat) \<le> 13)
                 \<or> (of_char c :: nat) = 32 \<or> (of_char c :: nat) = 133
                 \<or> (of_char c :: nat) = 160)"

definition py_isdigit :: "char \<Rightarrow> bool" where
  "py_isdigit c = (48 \<le> (of_char c :: nat) \<and> (of_char c :: nat) \<le> 57)"

definition digit_value :: "char \<Rightarrow> nat" where
  "digit_value c = of_char c - 48"

definition strip :: "string \<Rightarrow> string" where
  "strip s = rev (dropWhile py_isspace (rev (dropWhile py_isspace s)))"

fun digits_from :: "nat \<Rightarrow> string \<Rightarrow> nat option" where
  "digits_from acc [] = Some acc"
| "digits_from acc [c] =
     (if py_isdigit c then Some (10 * acc + digit_value c) else None)"
| "digits_from acc (c # d # ds) =
     (if py_isdigit c then digits_from (10 * acc + digit_value c) (d # ds)
      else if c = CHR ''_'' \<and> py_isdigit d then digits_from (10 * acc + digit_value d) ds
      else None)"

definition max_str_digits :: nat where
  "max_str_digits = 4300"

definition py_nat_str :: "string \<Rightarrow> nat option" where
  "py_nat_str s =
     (if max_str_digits < length (filter py_isdigit s) then None
      else case s of
        [] \<Rightarrow> None
      | c # cs \<Rightarrow> if py_isdigit c then digits_from (digit_value c) cs else None)"

definition py_int_str :: "string \<Rightarrow> exn + int" where
  "py_int_str s =
     (case (case strip s of
              [] \<Rightarrow> None
            | c # cs \<Rightarrow>
                if c = CHR ''-'' then map_option (\<lambda>n. - int n) (py_nat_str cs)
                else if c = CHR ''+'' then map_option int (py_nat_str cs)
                else map_option int (py_nat_str (c # cs))) of
        None \<Rightarrow> Inl ValueError
      | Some i \<Rightarrow> Inr i)"

text \<open>\<open>int(x)\<close> for a float truncates towards zero.\<close>

definition float_trunc :: "int \<Rightarrow> int \<Rightarrow> int" where
  "float_trunc m e =
     (if 0 \<le> e then m * 2 ^ nat e
      else if 0 \<le> m then m div 2 ^ nat (- e)
      else - ((- m) div 2 ^ nat (- e)))"

text \<open>\<open>int(v)\<close> for a decoded JSON value.\<close>

fun py_int :: "json \<Rightarrow> exn + int" where
  "py_int (JInt n) = Inr n"
| "py_int (JBool b) = Inr (if b then 1 else 0)"
| "py_int (JFloat (Finite m e r)) = Inr (float_trunc m e)"
| "py_int (JFloat (Infinity pos)) = Inl OverflowError"
| "py_int (JFloat NaN) = Inl ValueError"
| "py_int (JStr s) = py_int_str s"
| "py_int JNull = Inl TypeError"
| "py_int (JList xs) = Inl TypeError"
| "py_int (JObj kvs) = Inl TypeError"

subsection \<open>Configuration\<close>

text \<open>The environment variables the functions read; \<open>None\<close> is an unset variable.\<close>

record env =
  DEFAULT_STOCK :: "string option"
  BROKER_MAX_RETRIES :: "string option"
  BROKER_RETRY_BASE :: "string option"
  BROKER_PORT :: "string option"

text \<open>
  \<open>int(arg or os.environ.get(NAME, dflt))\<close>: an argument that is \<open>None\<close> or 0 is falsy and
  gives way to the variable, an unset variable to the default; a variable that is set is
  a str and goes through \<open>int\<close>. Without an argument this is \<open>int(os.environ.get(NAME,
  dflt))\<close>.
\<close>

definition int_or_env :: "int option \<Rightarrow> string option \<Rightarrow> int \<Rightarrow> exn + int" where
  "int_or_env arg var dflt =
     (case (case arg of None \<Rightarrow> None | Some n \<Rightarrow> if n \<noteq> 0 then Some n else None) of
        Some n \<Rightarrow> Inr n
      | None \<Rightarrow> (case var of None \<Rightarrow> Inr dflt | Some v \<Rightarrow> py_int_str v))"

subsection \<open>Lua numbers\<close>

text \<open>
  The script receives the quantity and the default as decimal text and reads the stored
  value as decimal text; \<open>tonumber\<close> turns each into a double, the nearest one, the even
  neighbour on a tie. \<open>to_double\<close> is that rounding for integers up to \<open>2 ^ 57\<close> in
  magnitude: below \<open>2 ^ 53\<close> every integer is a double, then every second, fourth, eighth
  and sixteenth one. The store prints an integral double below \<open>10 ^ 17\<close> in magnitude
  as the integer it is; how it prints a larger one depends on the server, so
  \<open>lua_tonumber\<close> follows numbers below \<open>2 ^ 56\<close> in magnitude and no others.
\<close>

definition to_double :: "int \<Rightarrow> int" where
  "to_double n =
     (let a = \<bar>n\<bar>;
          u = (if a < 2 ^ 53 then 1 else if a < 2 ^ 54 then 2 else if a < 2 ^ 55 then 4
               else if a < 2 ^ 56 then 8 else 16);
          q = a div u;
          r = a mod u;
          m = (if 2 * r < u then q else if u < 2 * r then q + 1
               else if even q then q else q + 1)
      in sgn n * (m * u))"

definition lua_tonumber :: "int \<Rightarrow> int option" where
  "lua_tonumber n = (if \<bar>n\<bar> < 2 ^ 56 then Some (to_double n) else None)"

subsection \<open>The store and the reservation script\<close>

text \<open>
  The Redis keyspace as the service uses it: a key holds the decimal text of an integer,
  and the model keeps the integer. \<open>GET\<close> reads it, \<open>SET\<close> writes one.
\<close>

type_synonym store = "string \<rightharpoonup> int"

definition redis_GET :: "string \<Rightarrow> store \<Rightarrow> int option" where
  "redis_GET key kv = kv key"

definition redis_SET :: "string \<Rightarrow> int \<Rightarrow> store \<Rightarrow> store" where
  "redis_SET key v kv = kv(key \<mapsto> v)"

text \<open>
  \<open>DECRBY\<close> works on signed 64-bit integers: it fails when the decrement, the stored value
  or the difference is none, and for the least 64-bit integer as decrement. Otherwise it
  reads an absent key as 0, stores the difference and returns it.
\<close>

definition int64 :: "int \<Rightarrow> bool" where
  "int64 n = (- (2 ^ 63) \<le> n \<and> n < 2 ^ 63)"

definition redis_DECRBY :: "string \<Rightarrow> int \<Rightarrow> store \<Rightarrow> exn + int \<times> store" where
  "redis_DECRBY key n kv =
     (if \<not> int64 n \<or> n = - (2 ^ 63) then Inl ResponseError
      else if \<not> int64 (case kv key of None \<Rightarrow> 0 | Some c \<Rightarrow> c) then Inl ResponseError
      else if \<not> int64 ((case kv key of None \<Rightarrow> 0 | Some c \<Rightarrow> c) - n) then Inl ResponseError
      else Inr ((case kv key of None \<Rightarrow> 0 | Some c \<Rightarrow> c) - n,
                kv(key \<mapsto> (case kv key of None \<Rightarrow> 0 | Some c \<Rightarrow> c) - n)))"

text \<open>
  The script of \<open>reserve\<close> (lines 99 to 114), run by Redis as one indivisible step:
  \<^verbatim>\<open>
    local key = KEYS[1]
    local qty = tonumber(ARGV[1])
    local default = tonumber(ARGV[2])
    local cur = redis.call('GET', key)
    if not cur then
      cur = default
      redis.call('SET', key, cur)
    else
      cur = tonumber(cur)
    end
    if cur < qty then
      return -1
    end
    return redis.call('DECRBY', key, qty)
  \<close>
  The result is what the script returns, or the error that aborts it, and the keyspace
  it leaves: a write made before an error stays. The value \<open>DECRBY\<close> returns passes
  through a Lua number on its way out, so it is rounded too.
\<close>

definition lua_script ::
  "string \<Rightarrow> int \<Rightarrow> int \<Rightarrow> store \<Rightarrow> ((exn + int) \<times> store) option" where
  "lua_script key qty dflt kv =
     (case lua_tonumber qty of
        None \<Rightarrow> None
      | Some q \<Rightarrow>
      (case lua_tonumber dflt of
        None \<Rightarrow> None
      | Some d \<Rightarrow>
      (case (case redis_GET key kv of
               None \<Rightarrow> Some (d, redis_SET key d kv)
             | Some c \<Rightarrow> map_option (\<lambda>x. (x, kv)) (lua_tonumber c)) of
        None \<Rightarrow> None
      | Some (cur, kv1) \<Rightarrow>
          if cur < q then Some (Inr (- 1), kv1)
          else (case redis_DECRBY key q kv1 of
                  Inl e \<Rightarrow> Some (Inl e, kv1)
                | Inr (v, kv2) \<Rightarrow> Some (Inr (to_double v), kv2)))))"

text \<open>
  Redis runs scripts one at a time, so any number of concurrent reservation calls on one
  item act on the keyspace as some sequence of script runs. \<open>script_runs\<close> lists, for such
  a sequence of quantities, what each run returned and the keyspace it left. A run has
  succeeded when it returned a value other than the sentinel \<open>-1\<close> (line 122 reports
  exactly those runs as successful), and \<open>granted\<close> adds up the quantities of the runs
  that succeeded.
\<close>

fun script_runs ::
  "string \<Rightarrow> int \<Rightarrow> int list \<Rightarrow> store \<Rightarrow> ((exn + int) \<times> store) list option" where
  "script_runs key dflt [] kv = Some []"
| "script_runs key dflt (q # qs) kv =
     (case lua_script key q dflt kv of
        None \<Rightarrow> None
      | Some (r, kv1) \<Rightarrow>
          (case script_runs key dflt qs kv1 of
             None \<Rightarrow> None
           | Some rs \<Rightarrow> Some ((r, kv1) # rs)))"

definition succeeded :: "exn + int \<Rightarrow> bool" where
  "succeeded r = (case r of Inl e \<Rightarrow> False | Inr res \<Rightarrow> res \<noteq> - 1)"

fun granted :: "int list \<Rightarrow> ((exn + int) \<times> store) list \<Rightarrow> int" where
  "granted (q # qs) ((r, kv) # rs) = (if succeeded r then q else 0) + granted qs rs"
| "granted [] rs = 0"
| "granted qs [] = 0"

subsection \<open>Process state\<close>

text \<open>
  The module's globals together with the world they act on: the keyspace behind \<open>r\<close>, the
  Prometheus counter, the cached broker connection and channel (lines 26 and 27), and
  the traces of what the process did: how many times it opened a broker connection, how
  many times it declared the queue, the lengths of its sleeps, and the lines it printed.
\<close>

datatype line =
    Retrying exn int
  | Processed json

record proc =
  redis :: store
  processed_counter :: nat
  connection :: "nat option"
  channel :: "nat option"
  handshakes :: nat
  declares :: nat
  slept :: "int list"
  stdout :: "line list"

text \<open>The state right after import: nothing stored, counted, connected or printed.\<close>

definition at_import :: proc where
  "at_import = \<lparr>redis = Map.empty, processed_counter = 0, connection = None,
                channel = None, handshakes = 0, declares = 0, slept = [],
                stdout = []\<rparr>"

definition unset_env :: env where
  "unset_env = \<lparr>DEFAULT_STOCK = None, BROKER_MAX_RETRIES = None,
                BROKER_RETRY_BASE = None, BROKER_PORT = None\<rparr>"

subsection \<open>The Redis client\<close>

text \<open>
  The client encodes a key that is a str as it is and an int or a float as \<open>repr\<close> prints
  it; it refuses \<open>None\<close>, bools, lists and dicts with a DataError. Printing an int of
  more than 4300 digits raises ValueError.
\<close>

fun dec_nat :: "nat \<Rightarrow> string" where
  "dec_nat n =
     (if n < 10 then [char_of (48 + n)]
      else dec_nat (n div 10) @ [char_of (48 + n mod 10)])"

declare dec_nat.simps [simp del]

definition dec_int :: "int \<Rightarrow> string" where
  "dec_int i = (if i < 0 then CHR ''-'' # dec_nat (nat (- i)) else dec_nat (nat i))"

fun float_repr :: "pyfloat \<Rightarrow> string" where
  "float_repr (Finite m e r) = r"
| "float_repr (Infinity pos) = (if pos then ''inf'' else ''-inf'')"
| "float_repr NaN = ''nan''"

fun encode_key :: "json \<Rightarrow> exn + string" where
  "encode_key (JStr s) = Inr s"
| "encode_key (JInt n) =
     (if 10 ^ max_str_digits \<le> \<bar>n\<bar> then Inl ValueError else Inr (dec_int n))"
| "encode_key (JFloat f) = Inr (float_repr f)"
| "encode_key JNull = Inl DataError"
| "encode_key (JBool b) = Inl DataError"
| "encode_key (JList xs) = Inl DataError"
| "encode_key (JObj kvs) = Inl DataError"

text \<open>
  A call to the store takes a flag saying whether the store answers it. When it does
  not, the client raises and the store is as before.
\<close>

definition r_get :: "bool \<Rightarrow> json \<Rightarrow> proc \<Rightarrow> exn + int option" where
  "r_get up item s =
     (case encode_key item of
        Inl e \<Rightarrow> Inl e
      | Inr key \<Rightarrow> if up then Inr (redis_GET key (redis s)) else Inl StoreError)"

definition r_eval ::
  "bool \<Rightarrow> json \<Rightarrow> int \<Rightarrow> int \<Rightarrow> proc \<Rightarrow> ((exn + int) \<times> proc) option" where
  "r_eval up item qty dflt s =
     (case encode_key item of
        Inl e \<Rightarrow> Some (Inl e, s)
      | Inr key \<Rightarrow>
          if up then
            (case lua_script key qty dflt (redis s) of
               None \<Rightarrow> None
             | Some (r, kv1) \<Rightarrow> Some (r, s\<lparr>redis := kv1\<rparr>))
          else Some (Inl StoreError, s))"

subsection \<open>The HTTP views\<close>

text \<open>
  A response is a body and a status. \<open>Server_error\<close> is the framework's answer to an
  exception that leaves a view: status 500.
\<close>

datatype body =
    Error_required
  | Error_redis exn
  | Stock string int
  | Reservation bool int
  | Server_error exn

type_synonym response = "body \<times> nat"

text \<open>
  \<^verbatim>\<open>
  def get_inventory(item):
      stock = r.get(item)
      if stock is None:
          return jsonify({"item": item, "stock": 0})
      return jsonify({"item": item, "stock": int(stock)})
  \<close>
\<close>

definition get_inventory :: "bool \<Rightarrow> string \<Rightarrow> proc \<Rightarrow> response \<times> proc" where
  "get_inventory up item s =
     (case r_get up (JStr item) s of
        Inl e \<Rightarrow> ((Server_error e, 500), s)
      | Inr None \<Rightarrow> ((Stock item 0, 200), s)
      | Inr (Some stock) \<Rightarrow> ((Stock item stock, 200), s))"

text \<open>
  \<open>reserve\<close> (lines 90 to 125). \<open>data\<close> is what \<open>request.get_json()\<close> returned; \<open>eval_up\<close>
  and \<open>get_up\<close> say whether the store answers the script call of line 117 and the read
  of line 123. Only the script call stands inside \<open>try\<close>; an exception anywhere else
  leaves the view.
\<close>

definition reserve ::
  "env \<Rightarrow> bool \<Rightarrow> bool \<Rightarrow> json \<Rightarrow> proc \<Rightarrow> (response \<times> proc) option" where
  "reserve ev eval_up get_up data s =
     (if \<not> truthy data then Some ((Error_required, 400), s)
      else case contains data ''item'' of
        Inl e \<Rightarrow> Some ((Server_error e, 500), s)
      | Inr False \<Rightarrow> Some ((Error_required, 400), s)
      | Inr True \<Rightarrow>
      (case contains data ''quantity'' of
        Inl e \<Rightarrow> Some ((Server_error e, 500), s)
      | Inr False \<Rightarrow> Some ((Error_required, 400), s)
      | Inr True \<Rightarrow>
      (case subscript data ''item'' of
        Inl e \<Rightarrow> Some ((Server_error e, 500), s)
      | Inr item \<Rightarrow>
      (case subscript data ''quantity'' of
        Inl e \<Rightarrow> Some ((Server_error e, 500), s)
      | Inr qv \<Rightarrow>
      (case py_int qv of
        Inl e \<Rightarrow> Some ((Server_error e, 500), s)
      | Inr qty \<Rightarrow>
      (case int_or_env None (DEFAULT_STOCK ev) 100 of
        Inl e \<Rightarrow> Some ((Server_error e, 500), s)
      | Inr dflt \<Rightarrow>
      (case r_eval eval_up item qty dflt s of
        None \<Rightarrow> None
      | Some (Inl e, s1) \<Rightarrow> Some ((Error_redis e, 500), s1)
      | Some (Inr res, s1) \<Rightarrow>
          if res = - 1 then
            (case r_get get_up item s1 of
               Inl e \<Rightarrow> Some ((Server_error e, 500), s1)
             | Inr cur \<Rightarrow>
                 Some ((Reservation False (case cur of None \<Rightarrow> dflt | Some c \<Rightarrow> c), 200),
                       s1))
          else Some ((Reservation True res, 200), s1))))))))"

subsection \<open>The broker connection\<close>

text \<open>
  What the broker does with one connection attempt (lines 46 to 50): it refuses the
  connection, or the connection opens and the channel does not, or both open and the
  queue declaration fails, or all three succeed. The numbers name the connection and
  the channel objects. A target tells the outcome of the n-th attempt the process makes.
\<close>

datatype handshake =
    Refused
  | No_channel nat
  | No_queue nat nat
  | Ready nat nat

text \<open>
  The body of \<open>try\<close>: each global is assigned as soon as its object exists, so a failure
  later in the body leaves the earlier assignments in place.
\<close>

definition try_connect :: "(nat \<Rightarrow> handshake) \<Rightarrow> proc \<Rightarrow> (exn + nat) \<times> proc" where
  "try_connect target s =
     (case target (handshakes s) of
        Refused \<Rightarrow> (Inl BrokerError, s\<lparr>handshakes := handshakes s + 1\<rparr>)
      | No_channel c \<Rightarrow>
          (Inl BrokerError, s\<lparr>connection := Some c, handshakes := handshakes s + 1\<rparr>)
      | No_queue c ch \<Rightarrow>
          (Inl BrokerError,
           s\<lparr>connection := Some c, channel := Some ch, handshakes := handshakes s + 1,
             declares := declares s + 1\<rparr>)
      | Ready c ch \<Rightarrow>
          (Inr ch,
           s\<lparr>connection := Some c, channel := Some ch, handshakes := handshakes s + 1,
             declares := declares s + 1\<rparr>))"

text \<open>
  \<open>time.sleep\<close> with an int: a length that does not fit the interpreter's 64-bit count of
  nanoseconds raises OverflowError, a negative one ValueError. A sleep of up to
  \<open>10 ^ 9\<close> seconds is carried out. Whether the operating system takes a longer one
  depends on its clock, and the result is \<open>None\<close>.
\<close>

definition sleep :: "int \<Rightarrow> proc \<Rightarrow> (exn + proc) option" where
  "sleep wait s =
     (if wait < - 9223372036 \<or> 9223372036 < wait then Some (Inl OverflowError)
      else if wait < 0 then Some (Inl ValueError)
      else if wait \<le> 1000000000 then Some (Inr (s\<lparr>slept := slept s @ [wait]\<rparr>))
      else None)"

text \<open>
  The loop of lines 44 to 57 over the attempt numbers still to come:
  \<^verbatim>\<open>
    for attempt in range(max_retries):
        try:
            ...
            return channel
        except Exception as e:
            wait = retry_base * (attempt + 1)
            print(f"[inventory-service] RabbitMQ not ready ({e}), retrying in {wait}s...")
            time.sleep(wait)
    raise RuntimeError("[inventory-service] Could not connect to RabbitMQ after retries.")
  \<close>
  Formatting a wait of more than 4300 digits raises ValueError before anything is
  printed.
\<close>

fun connect_loop ::
  "(nat \<Rightarrow> handshake) \<Rightarrow> int \<Rightarrow> nat list \<Rightarrow> proc \<Rightarrow> ((exn + nat) \<times> proc) option" where
  "connect_loop target retry_base [] s = Some (Inl RuntimeError, s)"
| "connect_loop target retry_base (attempt # rest) s =
     (case try_connect target s of
        (Inr ch, s1) \<Rightarrow> Some (Inr ch, s1)
      | (Inl e, s1) \<Rightarrow>
          if 10 ^ max_str_digits \<le> \<bar>retry_base * (int attempt + 1)\<bar>
          then Some (Inl ValueError, s1)
          else
          (case sleep (retry_base * (int attempt + 1))
                  (s1\<lparr>stdout := stdout s1 @ [Retrying e (retry_base * (int attempt + 1))]\<rparr>) of
             None \<Rightarrow> None
           | Some (Inl err) \<Rightarrow>
               Some (Inl err,
                 s1\<lparr>stdout := stdout s1 @ [Retrying e (retry_base * (int attempt + 1))]\<rparr>)
           | Some (Inr s2) \<Rightarrow> connect_loop target retry_base rest s2))"

text \<open>\<open>connect_broker\<close> (lines 29 to 57); \<open>range(n)\<close> is empty for \<open>n \<le> 0\<close>.\<close>

definition connect_broker ::
  "int option \<Rightarrow> int option \<Rightarrow> env \<Rightarrow> (nat \<Rightarrow> handshake) \<Rightarrow> proc
     \<Rightarrow> ((exn + nat) \<times> proc) option" where
  "connect_broker max_retries retry_base ev target s =
     (case (channel s, connection s) of
        (Some ch, Some c) \<Rightarrow> Some (Inr ch, s)
      | _ \<Rightarrow>
      (case int_or_env max_retries (BROKER_MAX_RETRIES ev) 10 of
         Inl e \<Rightarrow> Some (Inl e, s)
       | Inr m \<Rightarrow>
      (case int_or_env retry_base (BROKER_RETRY_BASE ev) 2 of
         Inl e \<Rightarrow> Some (Inl e, s)
       | Inr b \<Rightarrow>
      (case int_or_env None (BROKER_PORT ev) 5672 of
         Inl e \<Rightarrow> Some (Inl e, s)
       | Inr port \<Rightarrow> connect_loop target b [0 ..< nat m] s))))"

subsection \<open>The consumer\<close>

text \<open>
  A delivered message, as \<open>json.loads\<close> treats its body: it raises (UnicodeDecodeError for
  bytes that are not text, JSONDecodeError for text that is not JSON, ValueError for an
  integer literal beyond the digit limit), or it returns the decoded value.
\<close>

datatype message =
    Raises exn
  | Returns json

text \<open>
  \<^verbatim>\<open>
  def callback(ch, method, properties, body):
      order = json.loads(body)
      item = order["item"]
      quantity = int(order["quantity"])
      processed_counter.inc()
      print(f"Processed order notification: {order}")
  \<close>
  The result is the exception that left the handler, if any, and the state.
\<close>

definition callback :: "message \<Rightarrow> proc \<Rightarrow> exn option \<times> proc" where
  "callback msg s =
     (case msg of
        Raises e \<Rightarrow> (Some e, s)
      | Returns order \<Rightarrow>
      (case subscript order ''item'' of
        Inl e \<Rightarrow> (Some e, s)
      | Inr item \<Rightarrow>
      (case subscript order ''quantity'' of
        Inl e \<Rightarrow> (Some e, s)
      | Inr qv \<Rightarrow>
      (case py_int qv of
        Inl e \<Rightarrow> (Some e, s)
      | Inr quantity \<Rightarrow>
          (None, s\<lparr>processed_counter := processed_counter s + 1,
                   stdout := stdout s @ [Processed order]\<rparr>)))))"

text \<open>
  \<open>ch.start_consuming()\<close> on the messages the broker delivers, in order: the handler runs
  on each, and an exception that leaves the handler leaves the loop. The result \<open>None\<close>
  is a loop that has handled every message so far and waits for the next.
\<close>

fun start_consuming :: "message list \<Rightarrow> proc \<Rightarrow> exn option \<times> proc" where
  "start_consuming [] s = (None, s)"
| "start_consuming (msg # msgs) s =
     (case callback msg s of
        (Some e, s1) \<Rightarrow> (Some e, s1)
      | (None, s1) \<Rightarrow> start_consuming msgs s1)"

definition start_consumer ::
  "env \<Rightarrow> (nat \<Rightarrow> handshake) \<Rightarrow> message list \<Rightarrow> proc \<Rightarrow> (exn option \<times> proc) option" where
  "start_consumer ev target msgs s =
     (case connect_broker None None ev target s of
        None \<Rightarrow> None
      | Some (Inl e, s1) \<Rightarrow> Some (Some e, s1)
      | Some (Inr ch, s1) \<Rightarrow> Some (start_consuming msgs s1))"

subsection \<open>Inputs the properties speak about\<close>

text \<open>The stock a run of the script sees: the stored value, or the default for an absent key.\<close>

definition seen_stock :: "string \<Rightarrow> int \<Rightarrow> store \<Rightarrow> int" where
  "seen_stock key dflt kv = (case kv key of None \<Rightarrow> dflt | Some c \<Rightarrow> c)"

text \<open>The integers that Lua numbers hold exactly, one by one.\<close>

definition lua_exact :: "int \<Rightarrow> bool" where
  "lua_exact n = (\<bar>n\<bar> \<le> 2 ^ 53)"


text \<open>
  The broker protocol describes an order event as a JSON object with at least an item (a
  string) and a quantity (an integer or a numeric string). \<open>well_formed_event\<close> follows
  that description, with a numeric string read as decimal digits after an optional sign.
  \<open>malformed_event\<close> follows the description of a malformed message: a body that does not
  parse, or one that lacks the item or the quantity field. \<open>within_digit_limit\<close> holds of
  a quantity of at most 4300 digits.
\<close>

definition has_field :: "json \<Rightarrow> string \<Rightarrow> bool" where
  "has_field v k = (case v of JObj kvs \<Rightarrow> map_of kvs k \<noteq> None | _ \<Rightarrow> False)"

definition malformed_event :: "message \<Rightarrow> bool" where
  "malformed_event msg =
     (case msg of
        Raises e \<Rightarrow> True
      | Returns v \<Rightarrow> \<not> has_field v ''item'' \<or> \<not> has_field v ''quantity'')"




section \<open>Properties of the reservation script\<close>

lemma to_double_exact: "lua_exact n \<Longrightarrow> to_double n = n"
proof -
  assume "lua_exact n"
  then have a: "\<bar>n\<bar> \<le> 9007199254740992" by (simp add: lua_exact_def)
  show ?thesis
  proof (cases "\<bar>n\<bar> < 9007199254740992")
    case True
    then show ?thesis by (simp add: to_double_def Let_def sgn_mult_abs)
  next
    case False
    with a have "\<bar>n\<bar> = 9007199254740992" by simp
    then show ?thesis by (auto simp: to_double_def Let_def abs_if split: if_splits)
  qed
qed

lemma lua_tonumber_exact: "lua_exact n \<Longrightarrow> lua_tonumber n = Some n"
  by (simp add: lua_tonumber_def to_double_exact) (simp add: lua_exact_def)

lemma redis_DECRBY_exact:
  assumes "lua_exact (seen_stock key 0 kv)" and "lua_exact n"
  shows "redis_DECRBY key n kv =
           Inr (seen_stock key 0 kv - n, kv(key \<mapsto> seen_stock key 0 kv - n))"
  using assms
  by (auto simp: redis_DECRBY_def int64_def lua_exact_def seen_stock_def
           split: option.splits)

lemma lua_script_refused:
  assumes "lua_exact q" and "lua_exact dflt" and "lua_exact (seen_stock key dflt kv)"
      and "seen_stock key dflt kv < q"
  shows "lua_script key q dflt kv = Some (Inr (- 1), kv(key \<mapsto> seen_stock key dflt kv))"
proof (cases "kv key")
  case None
  with assms show ?thesis
    by (simp add: lua_script_def lua_tonumber_exact seen_stock_def redis_GET_def
                  redis_SET_def)
next
  case (Some c)
  with assms have "lua_tonumber c = Some c" by (simp add: lua_tonumber_exact seen_stock_def)
  with Some assms show ?thesis
    by (simp add: lua_script_def lua_tonumber_exact seen_stock_def redis_GET_def
                  map_upd_triv)
qed

lemma lua_script_granted:
  assumes "lua_exact q" and "lua_exact dflt" and "lua_exact (seen_stock key dflt kv)"
      and "lua_exact (seen_stock key dflt kv - q)"
      and "q \<le> seen_stock key dflt kv"
  shows "lua_script key q dflt kv =
           Some (Inr (seen_stock key dflt kv - q), kv(key \<mapsto> seen_stock key dflt kv - q))"
proof (cases "kv key")
  case None
  let ?kv1 = "kv(key \<mapsto> dflt)"
  have s0: "seen_stock key 0 ?kv1 = dflt" by (simp add: seen_stock_def)
  have d: "redis_DECRBY key q ?kv1 = Inr (dflt - q, ?kv1(key \<mapsto> dflt - q))"
    using redis_DECRBY_exact [of key ?kv1 q] assms(1,2) s0 by simp
  from None assms d show ?thesis
    by (simp add: lua_script_def lua_tonumber_exact seen_stock_def redis_GET_def
                  redis_SET_def to_double_exact)
next
  case (Some c)
  with assms have c: "lua_tonumber c = Some c" "lua_exact c"
    by (simp_all add: lua_tonumber_exact seen_stock_def)
  have s0: "seen_stock key 0 kv = c" using Some by (simp add: seen_stock_def)
  have d: "redis_DECRBY key q kv = Inr (c - q, kv(key \<mapsto> c - q))"
    using redis_DECRBY_exact [of key kv q] assms(1) c(2) s0 by simp
  from Some assms c d show ?thesis
    by (simp add: lua_script_def lua_tonumber_exact seen_stock_def redis_GET_def
                  to_double_exact)
qed

lemma seen_stock_Some: "kv key = Some v \<Longrightarrow> seen_stock key dflt kv = v"
  by (simp add: seen_stock_def)

text \<open>One run of the script on exact numbers, in terms of the stock it sees.\<close>

lemma script_step:
  assumes "0 \<le> seen_stock key dflt kv" and "lua_exact (seen_stock key dflt kv)"
      and "lua_exact dflt" and "0 < q" and "lua_exact q"
  shows "\<exists>r kv1. lua_script key q dflt kv = Some (r, kv1) \<and>
           kv1 key = Some (seen_stock key dflt kv - (if succeeded r then q else 0)) \<and>
           0 \<le> seen_stock key dflt kv - (if succeeded r then q else 0) \<and>
           lua_exact (seen_stock key dflt kv - (if succeeded r then q else 0))"
proof (cases "seen_stock key dflt kv < q")
  case True
  from lua_script_refused [OF assms(5) assms(3) assms(2) True] assms(1,2)
  show ?thesis by (simp add: succeeded_def)
next
  case False
  then have le: "q \<le> seen_stock key dflt kv" by simp
  have ex: "lua_exact (seen_stock key dflt kv - q)"
    using assms(1,2,4) le by (simp add: lua_exact_def)
  from lua_script_granted [OF assms(5) assms(3) assms(2) ex le] le
  show ?thesis using ex by (simp add: succeeded_def)
qed

lemma runs_invariant:
  assumes "lua_exact dflt"
  shows "0 \<le> seen_stock key dflt kv \<Longrightarrow> lua_exact (seen_stock key dflt kv) \<Longrightarrow>
         \<forall>q \<in> set qs. 0 < q \<and> lua_exact q \<Longrightarrow>
         \<exists>rs. script_runs key dflt qs kv = Some rs
            \<and> 0 \<le> granted qs rs \<and> granted qs rs \<le> seen_stock key dflt kv
            \<and> (qs \<noteq> [] \<longrightarrow>
                 snd (last rs) key = Some (seen_stock key dflt kv - granted qs rs))
            \<and> (\<forall>(r, kv') \<in> set rs. \<exists>v. kv' key = Some v \<and> 0 \<le> v)"
proof (induction qs arbitrary: kv)
  case Nil
  then show ?case by simp
next
  case (Cons q qs)
  let ?c = "seen_stock key dflt kv"
  have q: "0 < q" "lua_exact q" and rest: "\<forall>q \<in> set qs. 0 < q \<and> lua_exact q"
    using Cons.prems(3) by simp_all
  from script_step [OF Cons.prems(1) Cons.prems(2) assms q] obtain r kv1 where
    run: "lua_script key q dflt kv = Some (r, kv1)" and
    val: "kv1 key = Some (?c - (if succeeded r then q else 0))" and
    nn: "0 \<le> ?c - (if succeeded r then q else 0)" and
    ex: "lua_exact (?c - (if succeeded r then q else 0))"
    by blast
  have s1: "seen_stock key dflt kv1 = ?c - (if succeeded r then q else 0)"
    using val by (rule seen_stock_Some)
  from Cons.IH [of kv1] nn ex rest s1 obtain rs where
    runs: "script_runs key dflt qs kv1 = Some rs" and
    g0: "0 \<le> granted qs rs" and g1: "granted qs rs \<le> seen_stock key dflt kv1" and
    fin: "qs \<noteq> [] \<longrightarrow> snd (last rs) key = Some (seen_stock key dflt kv1 - granted qs rs)" and
    all: "\<forall>(r, kv') \<in> set rs. \<exists>v. kv' key = Some v \<and> 0 \<le> v"
    by auto
  have all_runs: "script_runs key dflt (q # qs) kv = Some ((r, kv1) # rs)"
    using run runs by simp
  have g: "granted (q # qs) ((r, kv1) # rs) = (if succeeded r then q else 0) + granted qs rs"
    by simp
  have a: "0 \<le> granted (q # qs) ((r, kv1) # rs)" using g g0 q(1) by simp
  have b: "granted (q # qs) ((r, kv1) # rs) \<le> ?c" using g g1 s1 by simp
  have rs_empty: "qs = [] \<Longrightarrow> rs = []" using runs by simp
  have rs_nonempty: "qs \<noteq> [] \<Longrightarrow> rs \<noteq> []"
    using runs by (cases qs) (auto split: option.splits)
  have c: "snd (last ((r, kv1) # rs)) key = Some (?c - granted (q # qs) ((r, kv1) # rs))"
  proof (cases "qs = []")
    case True
    with rs_empty have "rs = []" by simp
    with True val show ?thesis by simp
  next
    case False
    with rs_nonempty have "rs \<noteq> []" by simp
    with False fin s1 g show ?thesis by simp
  qed
  have d: "\<forall>(r, kv') \<in> set ((r, kv1) # rs). \<exists>v. kv' key = Some v \<and> 0 \<le> v"
    using all val nn by simp
  from all_runs a b c d show ?case by blast
qed

text \<open>
  C1, on the numbers Lua holds exactly. On a fresh item (key absent) with a default stock
  \<open>D\<close> between 0 and \<open>2 ^ 53\<close>, for every sequence of script runs with positive quantities
  of at most \<open>2 ^ 53\<close>: every run has a result; the quantities of the successful runs add
  up to at most \<open>D\<close>; once a run has happened (the first run initialises the item) the
  stored stock is \<open>D\<close> minus that sum; and the value stored after each run is present and
  never negative.
\<close>

theorem reservations_never_oversell:
  assumes "kv key = None" and "0 \<le> D" and "D \<le> 2 ^ 53"
      and "\<forall>q \<in> set qs. 0 < q \<and> q \<le> 2 ^ 53"
  shows "\<exists>rs. script_runs key D qs kv = Some rs
           \<and> granted qs rs \<le> D
           \<and> (qs \<noteq> [] \<longrightarrow> snd (last rs) key = Some (D - granted qs rs))
           \<and> (\<forall>(r, kv') \<in> set rs. \<exists>v. kv' key = Some v \<and> 0 \<le> v)"
proof -
  have s: "seen_stock key D kv = D" using assms(1) by (simp add: seen_stock_def)
  have d: "lua_exact D" using assms(2,3) by (simp add: lua_exact_def)
  have qs: "\<forall>q \<in> set qs. 0 < q \<and> lua_exact q" using assms(4) by (auto simp: lua_exact_def)
  from runs_invariant [OF d, of key kv qs] s d assms(2) qs show ?thesis by auto
qed

text \<open>
  C1 as stated fails beyond that range: with the default \<open>2 ^ 53 + 3\<close> the script reads the
  default as \<open>2 ^ 53 + 4\<close>, so one run with the quantity \<open>2 ^ 53 + 4\<close> succeeds and leaves 0,
  and the quantity granted exceeds the default.
\<close>

theorem reservations_oversell_counterexample:
  "script_runs ''widget'' 9007199254740995 [9007199254740996] Map.empty
     = Some [(Inr 0, [''widget'' \<mapsto> 0])]
   \<and> granted [9007199254740996] [(Inr 0, [''widget'' \<mapsto> 0])] = 9007199254740996
   \<and> (9007199254740995 :: int) < 9007199254740996"
  by (simp add: lua_script_def lua_tonumber_def to_double_def redis_GET_def redis_SET_def
                redis_DECRBY_def int64_def succeeded_def Let_def)

theorem reservations_never_oversell_witness:
  "\<exists>rs. script_runs ''widget'' 60 [2, 50, 20, 8] Map.empty = Some rs
      \<and> granted [2, 50, 20, 8] rs \<le> 60
      \<and> snd (last rs) ''widget'' = Some (60 - granted [2, 50, 20, 8] rs)
      \<and> list_all (\<lambda>(r, kv'). \<exists>v. kv' ''widget'' = Some v \<and> 0 \<le> v) rs"
proof -
  have fresh: "(Map.empty :: store) ''widget'' = None" by simp
  have d0: "(0::int) \<le> 60" and d1: "(60::int) \<le> 2 ^ 53" by simp_all
  have pos: "\<forall>q \<in> set [2, 50, 20, 8 :: int]. 0 < q \<and> q \<le> 2 ^ 53" by simp
  have calls: "[2, 50, 20, 8 :: int] \<noteq> []" by simp
  from reservations_never_oversell [OF fresh d0 d1 pos] calls show ?thesis
    unfolding list_all_iff by blast
qed

section \<open>Properties of the reserve view\<close>

text \<open>
  A request whose body is an object with a string item and a quantity that \<open>int\<close> accepts,
  under a configuration whose default stock \<open>int\<close> accepts, with the store answering the
  script call and all numbers exact in Lua: the view answers from the stock the script
  sees, rejecting when the stock is below the quantity and granting otherwise.
\<close>

lemma reserve_refused:
  assumes "map_of kvs ''item'' = Some (JStr k)"
      and "map_of kvs ''quantity'' = Some qv"
      and "py_int qv = Inr Q"
      and "int_or_env None (DEFAULT_STOCK ev) 100 = Inr D"
      and "lua_exact Q" and "lua_exact D" and "lua_exact (seen_stock k D (redis s))"
      and "seen_stock k D (redis s) < Q"
  shows "reserve ev True get_up (JObj kvs) s =
           Some (if get_up then (Reservation False (seen_stock k D (redis s)), 200)
                 else (Server_error StoreError, 500),
                 s\<lparr>redis := (redis s)(k \<mapsto> seen_stock k D (redis s))\<rparr>)"
proof -
  have ne: "kvs \<noteq> []" using assms(1) by auto
  from lua_script_refused [OF assms(5) assms(6) assms(7) assms(8)]
  show ?thesis
    using ne assms(1-4)
    by (simp add: reserve_def r_eval_def r_get_def redis_GET_def)
qed

lemma reserve_granted:
  assumes "map_of kvs ''item'' = Some (JStr k)"
      and "map_of kvs ''quantity'' = Some qv"
      and "py_int qv = Inr Q"
      and "int_or_env None (DEFAULT_STOCK ev) 100 = Inr D"
      and "lua_exact Q" and "lua_exact D" and "lua_exact (seen_stock k D (redis s))"
      and "lua_exact (seen_stock k D (redis s) - Q)"
      and "Q \<le> seen_stock k D (redis s)"
  shows "reserve ev True get_up (JObj kvs) s =
           Some ((Reservation True (seen_stock k D (redis s) - Q), 200),
                 s\<lparr>redis := (redis s)(k \<mapsto> seen_stock k D (redis s) - Q)\<rparr>)"
proof -
  have ne: "kvs \<noteq> []" using assms(1) by auto
  have "seen_stock k D (redis s) - Q \<noteq> - 1" using assms(9) by simp
  with lua_script_granted [OF assms(5) assms(6) assms(7) assms(8) assms(9)]
  show ?thesis
    using ne assms(1-4)
    by (simp add: reserve_def r_eval_def)
qed

text \<open>
  C4, on the numbers Lua holds exactly. For an item with current stock \<open>C\<close> and a reserve
  call with quantity \<open>Q > C\<close>, where \<open>C\<close>, \<open>Q\<close> and the configured default are at most
  \<open>2 ^ 53\<close> in magnitude (store reachable): the call leaves the store as it was, so the
  stock stays \<open>C\<close>, and answers \<open>success: false\<close> with \<open>remaining\<close> equal to \<open>C\<close>, status 200.
\<close>

theorem reserve_rejects_excess:
  assumes "map_of kvs ''item'' = Some (JStr k)"
      and "map_of kvs ''quantity'' = Some qv"
      and "py_int qv = Inr Q"
      and "int_or_env None (DEFAULT_STOCK ev) 100 = Inr D"
      and "redis s k = Some C"
      and "C < Q"
      and "\<bar>C\<bar> \<le> 2 ^ 53" and "\<bar>Q\<bar> \<le> 2 ^ 53" and "\<bar>D\<bar> \<le> 2 ^ 53"
  shows "reserve ev True True (JObj kvs) s = Some ((Reservation False C, 200), s)"
proof -
  have seen: "seen_stock k D (redis s) = C" using assms(5) by (rule seen_stock_Some)
  have ex: "lua_exact Q" "lua_exact D" "lua_exact (seen_stock k D (redis s))"
    using assms(7-9) seen by (simp_all add: lua_exact_def)
  have lt: "seen_stock k D (redis s) < Q" using seen assms(6) by simp
  from reserve_refused [OF assms(1-4) ex lt, of True] seen assms(5)
  show ?thesis by (simp add: map_upd_triv)
qed

text \<open>
  C4 as stated fails beyond that range: with stock \<open>2 ^ 53\<close> a call with quantity
  \<open>2 ^ 53 + 1\<close>, which exceeds the stock, is read by the script as \<open>2 ^ 53\<close>; it reports
  success and the stock drops to 0.
\<close>

theorem reserve_excess_counterexample:
  "reserve unset_env True True
     (JObj [(''item'', JStr ''widget''), (''quantity'', JInt 9007199254740993)])
     (at_import\<lparr>redis := [''widget'' \<mapsto> 9007199254740992]\<rparr>)
     = Some ((Reservation True 0, 200), at_import\<lparr>redis := [''widget'' \<mapsto> 0]\<rparr>)
   \<and> (9007199254740992 :: int) < 9007199254740993"
  by (simp add: reserve_def int_or_env_def unset_env_def r_eval_def lua_script_def
                lua_tonumber_def to_double_def redis_GET_def redis_SET_def redis_DECRBY_def
                int64_def at_import_def Let_def)

theorem reserve_rejects_excess_witness:
  "reserve unset_env True True
     (JObj [(''item'', JStr ''widget''), (''quantity'', JInt 1000)])
     (at_import\<lparr>redis := [''widget'' \<mapsto> 70]\<rparr>)
     = Some ((Reservation False 70, 200), at_import\<lparr>redis := [''widget'' \<mapsto> 70]\<rparr>)"
proof -
  have item: "map_of [(''item'', JStr ''widget''), (''quantity'', JInt 1000)] ''item''
                = Some (JStr ''widget'')" by simp
  have qv: "map_of [(''item'', JStr ''widget''), (''quantity'', JInt 1000)] ''quantity''
                = Some (JInt 1000)" by simp
  have q: "py_int (JInt 1000) = Inr 1000" by simp
  have d: "int_or_env None (DEFAULT_STOCK unset_env) 100 = Inr 100"
    by (simp add: int_or_env_def unset_env_def)
  have cur: "redis (at_import\<lparr>redis := [''widget'' \<mapsto> 70]\<rparr>) ''widget'' = Some 70" by simp
  have more: "(70::int) < 1000" by simp
  have r: "\<bar>70 :: int\<bar> \<le> 2 ^ 53" "\<bar>1000 :: int\<bar> \<le> 2 ^ 53" "\<bar>100 :: int\<bar> \<le> 2 ^ 53"
    by simp_all
  from reserve_rejects_excess [OF item qv q d cur more r] show ?thesis .
qed

text \<open>
  C5, on the numbers Lua holds exactly. For an item absent from the store, with the
  default \<open>D\<close> and the quantity \<open>Q\<close> at most \<open>2 ^ 53\<close> in magnitude (and \<open>D - Q\<close> at most
  \<open>2 ^ 53\<close>): running the script is running it on the store with the item set to the
  default first; after the call the item is present, with the default when the
  reservation is rejected for insufficient stock (\<open>D < Q\<close>) and with the default less the
  quantity otherwise. After a rejected reservation the answer carries \<open>remaining\<close> equal
  to the default, and a \<open>GET /inventory\<close> read of the item returns the default as its
  stock.
\<close>

theorem reserve_initialises_before_check:
  assumes "map_of kvs ''item'' = Some (JStr k)"
      and "map_of kvs ''quantity'' = Some qv"
      and "py_int qv = Inr Q"
      and "int_or_env None (DEFAULT_STOCK ev) 100 = Inr D"
      and "redis s k = None"
      and "\<bar>D\<bar> \<le> 2 ^ 53" and "\<bar>Q\<bar> \<le> 2 ^ 53" and "D - Q \<le> 2 ^ 53"
  shows "lua_script k Q D (redis s) = lua_script k Q D ((redis s)(k \<mapsto> D))
       \<and> (\<exists>resp. reserve ev True get_up (JObj kvs) s
             = Some (resp, s\<lparr>redis := (redis s)(k \<mapsto> (if D < Q then D else D - Q))\<rparr>))
       \<and> (if D < Q then
            reserve ev True True (JObj kvs) s
              = Some ((Reservation False D, 200), s\<lparr>redis := (redis s)(k \<mapsto> D)\<rparr>)
            \<and> get_inventory True k (s\<lparr>redis := (redis s)(k \<mapsto> D)\<rparr>)
              = ((Stock k D, 200), s\<lparr>redis := (redis s)(k \<mapsto> D)\<rparr>)
          else True)"
proof -
  have seen: "seen_stock k D (redis s) = D" using assms(5) by (simp add: seen_stock_def)
  have ex: "lua_exact Q" "lua_exact D" "lua_exact (seen_stock k D (redis s))"
    using assms(6,7) seen by (simp_all add: lua_exact_def)
  have exd: "Q \<le> D \<Longrightarrow> lua_exact (seen_stock k D (redis s) - Q)"
    using assms(8) seen by (simp add: lua_exact_def)
  have ld: "lua_tonumber D = Some D" using ex(2) by (rule lua_tonumber_exact)
  have lq: "lua_tonumber Q = Some Q" using ex(1) by (rule lua_tonumber_exact)
  have a: "lua_script k Q D (redis s) = lua_script k Q D ((redis s)(k \<mapsto> D))"
    using assms(5) ld lq by (simp add: lua_script_def redis_GET_def redis_SET_def)
  have b: "\<exists>resp. reserve ev True get_up (JObj kvs) s
             = Some (resp, s\<lparr>redis := (redis s)(k \<mapsto> (if D < Q then D else D - Q))\<rparr>)"
  proof (cases "D < Q")
    case True
    then have "seen_stock k D (redis s) < Q" using seen by simp
    from reserve_refused [OF assms(1-4) ex this, of get_up] seen True show ?thesis by simp
  next
    case False
    then have "Q \<le> seen_stock k D (redis s)" using seen by simp
    moreover have "lua_exact (seen_stock k D (redis s) - Q)" using False exd by simp
    ultimately show ?thesis
      using reserve_granted [OF assms(1-4) ex, of get_up] seen False by simp
  qed
  have c: "D < Q \<Longrightarrow> reserve ev True True (JObj kvs) s
            = Some ((Reservation False D, 200), s\<lparr>redis := (redis s)(k \<mapsto> D)\<rparr>)"
  proof -
    assume "D < Q"
    then have "seen_stock k D (redis s) < Q" using seen by simp
    from reserve_refused [OF assms(1-4) ex this, of True] seen show ?thesis by simp
  qed
  have d: "get_inventory True k (s\<lparr>redis := (redis s)(k \<mapsto> D)\<rparr>)
              = ((Stock k D, 200), s\<lparr>redis := (redis s)(k \<mapsto> D)\<rparr>)"
    by (simp add: get_inventory_def r_get_def redis_GET_def)
  from a b c d show ?thesis by simp
qed

lemma py_int_str_big: "py_int_str ''9007199254740993'' = Inr 9007199254740993"
  by (simp add: py_int_str_def strip_def py_isspace_def py_nat_str_def py_isdigit_def
                digit_value_def max_str_digits_def)

text \<open>
  C5 as stated fails beyond that range: with the configured default \<open>2 ^ 53 + 1\<close> the
  script initialises the item to \<open>2 ^ 53\<close>; the rejected reservation answers
  \<open>remaining\<close> \<open>2 ^ 53\<close> and the read that follows returns \<open>2 ^ 53\<close>, not the default.
\<close>

theorem reserve_default_counterexample:
  "int_or_env None (DEFAULT_STOCK (unset_env\<lparr>DEFAULT_STOCK := Some ''9007199254740993''\<rparr>)) 100
     = Inr 9007199254740993
   \<and> reserve (unset_env\<lparr>DEFAULT_STOCK := Some ''9007199254740993''\<rparr>) True True
       (JObj [(''item'', JStr ''widget''), (''quantity'', JInt 18014398509481984)]) at_import
     = Some ((Reservation False 9007199254740992, 200),
             at_import\<lparr>redis := [''widget'' \<mapsto> 9007199254740992]\<rparr>)
   \<and> get_inventory True ''widget'' (at_import\<lparr>redis := [''widget'' \<mapsto> 9007199254740992]\<rparr>)
     = ((Stock ''widget'' 9007199254740992, 200),
        at_import\<lparr>redis := [''widget'' \<mapsto> 9007199254740992]\<rparr>)"
  by (simp add: reserve_def int_or_env_def py_int_str_big r_eval_def r_get_def
                lua_script_def lua_tonumber_def to_double_def redis_GET_def redis_SET_def
                at_import_def get_inventory_def Let_def)

theorem reserve_initialises_before_check_witness:
  "reserve unset_env True True
     (JObj [(''item'', JStr ''widget''), (''quantity'', JInt 1000)]) at_import
     = Some ((Reservation False 100, 200), at_import\<lparr>redis := [''widget'' \<mapsto> 100]\<rparr>)
   \<and> get_inventory True ''widget'' (at_import\<lparr>redis := [''widget'' \<mapsto> 100]\<rparr>)
     = ((Stock ''widget'' 100, 200), at_import\<lparr>redis := [''widget'' \<mapsto> 100]\<rparr>)"
proof -
  have item: "map_of [(''item'', JStr ''widget''), (''quantity'', JInt 1000)] ''item''
                = Some (JStr ''widget'')" by simp
  have qv: "map_of [(''item'', JStr ''widget''), (''quantity'', JInt 1000)] ''quantity''
                = Some (JInt 1000)" by simp
  have q: "py_int (JInt 1000) = Inr 1000" by simp
  have d: "int_or_env None (DEFAULT_STOCK unset_env) 100 = Inr 100"
    by (simp add: int_or_env_def unset_env_def)
  have absent: "redis at_import ''widget'' = None" by (simp add: at_import_def)
  have r: "redis at_import = Map.empty" by (simp add: at_import_def)
  have b: "\<bar>100 :: int\<bar> \<le> 2 ^ 53" "\<bar>1000 :: int\<bar> \<le> 2 ^ 53" "(100 - 1000 :: int) \<le> 2 ^ 53"
    by simp_all
  from reserve_initialises_before_check [OF item qv q d absent b, of True]
  show ?thesis by (simp add: r)
qed

text \<open>
  C2, as the code has it. The view does not treat a zero or negative quantity as invalid:
  it runs the same script as for any quantity. For a quantity \<open>Q \<le> 0\<close> and an item whose
  current stock \<open>C\<close> (the default when the item is absent) is not negative, with \<open>C - Q\<close>
  and the default at most \<open>2 ^ 53\<close> in magnitude, the call answers \<open>success: true\<close> with
  \<open>remaining\<close> equal to \<open>C - Q\<close> and stores \<open>C - Q\<close>: a zero quantity leaves the stock
  value at \<open>C\<close>, a negative one raises it.
\<close>

theorem reserve_accepts_nonpositive:
  assumes "map_of kvs ''item'' = Some (JStr k)"
      and "map_of kvs ''quantity'' = Some qv"
      and "py_int qv = Inr Q"
      and "int_or_env None (DEFAULT_STOCK ev) 100 = Inr D"
      and "Q \<le> 0"
      and "0 \<le> seen_stock k D (redis s)"
      and "seen_stock k D (redis s) - Q \<le> 2 ^ 53"
      and "\<bar>D\<bar> \<le> 2 ^ 53"
  shows "reserve ev True get_up (JObj kvs) s =
           Some ((Reservation True (seen_stock k D (redis s) - Q), 200),
                 s\<lparr>redis := (redis s)(k \<mapsto> seen_stock k D (redis s) - Q)\<rparr>)"
proof -
  have ex: "lua_exact Q" "lua_exact D" "lua_exact (seen_stock k D (redis s))"
           "lua_exact (seen_stock k D (redis s) - Q)"
    using assms(5-8) by (simp_all add: lua_exact_def)
  have le: "Q \<le> seen_stock k D (redis s)" using assms(5,6) by simp
  from reserve_granted [OF assms(1-4) ex le] show ?thesis .
qed

text \<open>
  C2 as stated fails: with stock 100, a reserve call with quantity 0 reports success, and
  one with quantity -5 reports success and changes the stock to 105.
\<close>

theorem reserve_nonpositive_counterexample:
  "reserve unset_env True True
     (JObj [(''item'', JStr ''widget''), (''quantity'', JInt 0)])
     (at_import\<lparr>redis := [''widget'' \<mapsto> 100]\<rparr>)
     = Some ((Reservation True 100, 200), at_import\<lparr>redis := [''widget'' \<mapsto> 100]\<rparr>)
   \<and> reserve unset_env True True
     (JObj [(''item'', JStr ''widget''), (''quantity'', JInt (- 5))])
     (at_import\<lparr>redis := [''widget'' \<mapsto> 100]\<rparr>)
     = Some ((Reservation True 105, 200), at_import\<lparr>redis := [''widget'' \<mapsto> 105]\<rparr>)"
  by (simp add: reserve_def int_or_env_def unset_env_def r_eval_def lua_script_def
                lua_tonumber_def to_double_def redis_GET_def redis_SET_def redis_DECRBY_def
                int64_def at_import_def Let_def)

theorem reserve_accepts_nonpositive_witness:
  "reserve unset_env True True
     (JObj [(''item'', JStr ''widget''), (''quantity'', JInt (- 5))])
     (at_import\<lparr>redis := [''widget'' \<mapsto> 100]\<rparr>)
     = Some ((Reservation True (seen_stock ''widget'' 100 [''widget'' \<mapsto> 100] - (- 5)), 200),
        at_import\<lparr>redis := [''widget'' \<mapsto> 100,
            ''widget'' \<mapsto> seen_stock ''widget'' 100 [''widget'' \<mapsto> 100] - (- 5)]\<rparr>)"
proof -
  have item: "map_of [(''item'', JStr ''widget''), (''quantity'', JInt (- 5))] ''item''
                = Some (JStr ''widget'')" by simp
  have qv: "map_of [(''item'', JStr ''widget''), (''quantity'', JInt (- 5))] ''quantity''
                = Some (JInt (- 5))" by simp
  have q: "py_int (JInt (- 5)) = Inr (- 5)" by simp
  have d: "int_or_env None (DEFAULT_STOCK unset_env) 100 = Inr 100"
    by (simp add: int_or_env_def unset_env_def)
  have neg: "(- 5 :: int) \<le> 0" by simp
  have nn: "0 \<le> seen_stock ''widget'' 100 (redis (at_import\<lparr>redis := [''widget'' \<mapsto> 100]\<rparr>))"
    by (simp add: seen_stock_def)
  have up: "seen_stock ''widget'' 100 (redis (at_import\<lparr>redis := [''widget'' \<mapsto> 100]\<rparr>)) - (- 5)
              \<le> 2 ^ 53"
    by (simp add: seen_stock_def)
  have dd: "\<bar>100 :: int\<bar> \<le> 2 ^ 53" by simp
  from reserve_accepts_nonpositive [OF item qv q d neg nn up dd, of True]
  show ?thesis by (simp add: at_import_def)
qed

text \<open>
  C8. A body that lacks the item or the quantity gets status 400 and a store failure
  gets status 500, but so does a body whose quantity is not a number: \<open>int\<close> raises
  outside the \<open>try\<close> of line 116, the exception leaves the view, and the answer has the
  status of a store failure instead of 400.
\<close>

theorem reserve_bad_quantity_is_500:
  "reserve unset_env True True
     (JObj [(''item'', JStr ''widget''), (''quantity'', JStr ''abc'')]) at_import
     = Some ((Server_error ValueError, 500), at_import)
   \<and> reserve unset_env False True
     (JObj [(''item'', JStr ''widget''), (''quantity'', JInt 5)]) at_import
     = Some ((Error_redis StoreError, 500), at_import)"
  by (simp add: reserve_def py_int_str_def strip_def py_isspace_def py_nat_str_def
                py_isdigit_def int_or_env_def unset_env_def r_eval_def)

text \<open>
  The answers the view does tell apart: the guard of line 92 answers 400, and a failed
  script call answers 500 with the redis error body.
\<close>

lemma reserve_guard:
  "\<not> truthy data \<or> contains data ''item'' = Inr False
     \<or> (contains data ''item'' = Inr True \<and> contains data ''quantity'' = Inr False) \<Longrightarrow>
   reserve ev eval_up get_up data s = Some ((Error_required, 400), s)"
  by (auto simp: reserve_def)

lemma reserve_store_failure:
  assumes "map_of kvs ''item'' = Some (JStr k)"
      and "map_of kvs ''quantity'' = Some qv"
      and "py_int qv = Inr Q"
      and "int_or_env None (DEFAULT_STOCK ev) 100 = Inr D"
  shows "reserve ev False get_up (JObj kvs) s = Some ((Error_redis StoreError, 500), s)"
proof -
  have ne: "kvs \<noteq> []" using assms(1) by auto
  show ?thesis using ne assms by (simp add: reserve_def r_eval_def)
qed

section \<open>Properties of the inventory view\<close>

text \<open>
  C10. \<open>GET /inventory/{item}\<close> leaves the whole state as it was, whether the store
  answers or not: it creates no key and applies no default. When the store answers, the
  stock it returns is 0 for an absent key and the stored value otherwise.
\<close>

theorem get_inventory_reads_only:
  "snd (get_inventory up item s) = s
   \<and> fst (get_inventory True item s)
       = (Stock item (case redis s item of None \<Rightarrow> 0 | Some stock \<Rightarrow> stock), 200)"
  by (simp add: get_inventory_def r_get_def redis_GET_def split: option.splits)

theorem get_inventory_reads_only_witness:
  "get_inventory True ''widget'' at_import = ((Stock ''widget'' 0, 200), at_import)
   \<and> get_inventory True ''widget'' (at_import\<lparr>redis := [''widget'' \<mapsto> 70]\<rparr>)
       = ((Stock ''widget'' 70, 200), at_import\<lparr>redis := [''widget'' \<mapsto> 70]\<rparr>)"
proof -
  have r: "redis at_import ''widget'' = None" by (simp add: at_import_def)
  from get_inventory_reads_only [of True "''widget''" at_import]
       get_inventory_reads_only [of True "''widget''" "at_import\<lparr>redis := [''widget'' \<mapsto> 70]\<rparr>"]
  show ?thesis by (simp add: r prod_eq_iff)
qed

section \<open>Properties of the broker connection\<close>










lemma connect_broker_cached:
  "channel s = Some ch \<Longrightarrow> connection s = Some c \<Longrightarrow>
     connect_broker max_retries retry_base ev target s = Some (Inr ch, s)"
  by (simp add: connect_broker_def)

lemma try_connect_ready:
  "try_connect target s = (Inr ch, s1) \<Longrightarrow> channel s1 = Some ch \<and> connection s1 \<noteq> None"
  by (cases "target (handshakes s)") (auto simp: try_connect_def)

lemma connect_loop_ready:
  "connect_loop target b as s = Some (Inr ch, s1) \<Longrightarrow>
     channel s1 = Some ch \<and> connection s1 \<noteq> None"
proof (induction as arbitrary: s)
  case Nil
  then show ?case by simp
next
  case (Cons a as)
  obtain r s0 where t: "try_connect target s = (r, s0)" by (cases "try_connect target s")
  show ?case
  proof (cases r)
    case (Inr ch0)
    with t Cons.prems have "ch0 = ch" "s0 = s1" by simp_all
    with t Inr show ?thesis using try_connect_ready by blast
  next
    case (Inl e)
    let ?w = "b * (int a + 1)"
    let ?s2 = "s0\<lparr>stdout := stdout s0 @ [Retrying e ?w]\<rparr>"
    show ?thesis
    proof (cases "10 ^ max_str_digits \<le> \<bar>?w\<bar>")
      case True
      with t Inl Cons.prems show ?thesis by simp
    next
      case False
      show ?thesis
      proof (cases "sleep ?w ?s2")
        case None
        with t Inl False Cons.prems show ?thesis by simp
      next
        case (Some res)
        show ?thesis
        proof (cases res)
          case (Inl err)
          with Some t \<open>r = Inl e\<close> False Cons.prems show ?thesis by simp
        next
          case (Inr s3)
          with Some t \<open>r = Inl e\<close> False Cons.prems
          have "connect_loop target b as s3 = Some (Inr ch, s1)" by simp
          then show ?thesis by (rule Cons.IH)
        qed
      qed
    qed
  qed
qed

lemma connect_broker_ready:
  assumes "connect_broker max_retries retry_base ev target s = Some (Inr ch, s1)"
  shows "channel s1 = Some ch \<and> connection s1 \<noteq> None"
proof (cases "channel s \<noteq> None \<and> connection s \<noteq> None")
  case True
  then obtain ch0 c0 where "channel s = Some ch0" "connection s = Some c0" by auto
  with assms show ?thesis by (simp add: connect_broker_def)
next
  case False
  with assms obtain b m where "connect_loop target b [0 ..< nat m] s = Some (Inr ch, s1)"
    by (auto simp: connect_broker_def split: option.splits sum.splits)
  then show ?thesis by (rule connect_loop_ready)
qed

text \<open>
  C7. After a call of \<open>connect_broker\<close> has returned a channel, any further call, with
  any arguments, configuration and target, returns that same channel and leaves the
  state as it is: no connection is opened, no queue declared, nothing slept or printed.
\<close>

theorem connect_broker_idempotent:
  assumes "connect_broker max_retries retry_base ev target s = Some (Inr ch, s1)"
  shows "connect_broker max_retries' retry_base' ev' target' s1 = Some (Inr ch, s1)"
proof -
  from connect_broker_ready [OF assms] obtain c where
    "channel s1 = Some ch" "connection s1 = Some c" by auto
  then show ?thesis by (rule connect_broker_cached)
qed

theorem connect_broker_idempotent_witness:
  "connect_broker None None unset_env (\<lambda>n. Ready 1 1) at_import
     = Some (Inr 1, at_import\<lparr>connection := Some 1, channel := Some 1, handshakes := 1, declares := 1\<rparr>)
   \<and> connect_broker None None unset_env (\<lambda>n. Ready 2 2)
       (at_import\<lparr>connection := Some 1, channel := Some 1, handshakes := 1, declares := 1\<rparr>)
     = Some (Inr 1, at_import\<lparr>connection := Some 1, channel := Some 1, handshakes := 1, declares := 1\<rparr>)"
proof -
  have ten: "[0 ..< (10::nat)] = 0 # [1 ..< 10]" by (simp add: upt_conv_Cons)
  have first: "connect_broker None None unset_env (\<lambda>n. Ready 1 1) at_import
     = Some (Inr 1, at_import\<lparr>connection := Some 1, channel := Some 1, handshakes := 1, declares := 1\<rparr>)"
    unfolding connect_broker_def
    by (simp add: int_or_env_def unset_env_def at_import_def ten try_connect_def)
  from connect_broker_idempotent [OF first] first show ?thesis by simp
qed

section \<open>Properties of the consumer\<close>



text \<open>The exception a malformed message makes the handler raise.\<close>

lemma malformed_raises:
  assumes "malformed_event msg"
  shows "\<exists>e. callback msg s = (Some e, s)
           \<and> ((\<exists>x. msg = Raises x \<and> e = x) \<or> e = KeyError ''item''
                \<or> e = KeyError ''quantity'' \<or> e = TypeError)"
proof (cases msg)
  case (Raises x)
  then show ?thesis by (simp add: callback_def)
next
  case (Returns v)
  show ?thesis
  proof (cases v)
    case (JObj kvs)
    with Returns assms show ?thesis
      by (auto simp: malformed_event_def has_field_def callback_def
               split: option.splits sum.splits)
  qed (simp_all add: Returns callback_def)
qed

text \<open>
  C3, as the code has it. For a message whose body does not parse or lacks the item or
  the quantity field, the handler raises before it counts or prints anything: the
  exception of \<open>json.loads\<close> for a body that does not parse, KeyError for an object
  without the item or without the quantity, TypeError for a value that is not an
  object. The state stays as it was, and the exception leaves the consuming loop: the
  loop, and with it \<open>start_consumer\<close> once connected, ends with that exception and
  handles none of the messages that follow.
\<close>

theorem malformed_event_stops_consumer:
  assumes "malformed_event msg"
      and "connect_broker None None ev target s0 = Some (Inr ch, s)"
  shows "\<exists>e. callback msg s = (Some e, s)
           \<and> ((\<exists>x. msg = Raises x \<and> e = x) \<or> e = KeyError ''item''
                \<or> e = KeyError ''quantity'' \<or> e = TypeError)
           \<and> start_consuming (msg # msgs) s = (Some e, s)
           \<and> start_consumer ev target (msg # msgs) s0 = Some (Some e, s)"
proof -
  from malformed_raises [OF assms(1)] obtain e where
    "callback msg s = (Some e, s)"
    "(\<exists>x. msg = Raises x \<and> e = x) \<or> e = KeyError ''item''
       \<or> e = KeyError ''quantity'' \<or> e = TypeError"
    by blast
  then show ?thesis using assms(2) by (simp add: start_consumer_def)
qed

text \<open>
  C3 as stated fails: the handler raises JSONDecodeError or UnicodeDecodeError on a body
  that does not parse and KeyError on a body without quantity, and a loop that meets
  such a message ends with the exception; the well-formed message after it is never
  counted.
\<close>

theorem malformed_event_counterexample:
  "callback (Raises JSONDecodeError) at_import = (Some JSONDecodeError, at_import)
   \<and> callback (Raises UnicodeDecodeError) at_import = (Some UnicodeDecodeError, at_import)
   \<and> callback (Returns (JObj [(''item'', JStr ''widget'')])) at_import
       = (Some (KeyError ''quantity''), at_import)
   \<and> start_consuming
       [Raises JSONDecodeError,
        Returns (JObj [(''item'', JStr ''widget''), (''quantity'', JInt 30)])] at_import
       = (Some JSONDecodeError, at_import)"
  by (simp add: callback_def)

theorem malformed_event_stops_consumer_witness:
  "\<exists>e. callback (Returns (JObj [(''item'', JStr ''widget'')]))
          (at_import\<lparr>connection := Some 1, channel := Some 1\<rparr>)
        = (Some e, at_import\<lparr>connection := Some 1, channel := Some 1\<rparr>)
      \<and> start_consuming
          [Returns (JObj [(''item'', JStr ''widget'')]),
           Returns (JObj [(''item'', JStr ''widget''), (''quantity'', JInt 30)])]
          (at_import\<lparr>connection := Some 1, channel := Some 1\<rparr>)
        = (Some e, at_import\<lparr>connection := Some 1, channel := Some 1\<rparr>)
      \<and> start_consumer unset_env (\<lambda>n. Refused)
          [Returns (JObj [(''item'', JStr ''widget'')]),
           Returns (JObj [(''item'', JStr ''widget''), (''quantity'', JInt 30)])]
          (at_import\<lparr>connection := Some 1, channel := Some 1\<rparr>)
        = Some (Some e, at_import\<lparr>connection := Some 1, channel := Some 1\<rparr>)"
proof -
  have bad: "malformed_event (Returns (JObj [(''item'', JStr ''widget'')]))"
    by (simp add: malformed_event_def has_field_def)
  have up: "connect_broker None None unset_env (\<lambda>n. Refused)
              (at_import\<lparr>connection := Some 1, channel := Some 1\<rparr>)
            = Some (Inr 1, at_import\<lparr>connection := Some 1, channel := Some 1\<rparr>)"
    by (simp add: connect_broker_def)
  from malformed_event_stops_consumer [OF bad up] show ?thesis by blast
qed














end
